theory Spec2Isabelle
  imports Main "HOL-Library.Signed_Division" "HOL-Library.Char_ord" "HOL-Library.List_Lexorder"
begin

section \<open>JavaScript values and arrays\<close>

text \<open>
  The payload \<open>V\<close> of an item is any JavaScript value. The fragment modelled here has the
  primitives, arrays and plain objects. An array or an object carries its address (its
  reference identity); two objects built by two object literals have two addresses even
  when they hold the same properties. Numbers are restricted to the integers.
\<close>

type_synonym addr = nat

datatype jsval =
    JUndefined
  | JNull
  | JBool bool
  | JNum int
  | JStr string
  | JArr addr "jsval list"
  | JObj addr "(string \<times> jsval) list"

text \<open>
  \<open>===\<close> on two values: primitives by value, arrays and objects by address.
\<close>

fun strictEquals :: "jsval \<Rightarrow> jsval \<Rightarrow> bool" where
  "strictEquals (JArr a _) (JArr b _) = (a = b)"
| "strictEquals (JObj a _) (JObj b _) = (a = b)"
| "strictEquals (JArr _ _) _ = False"
| "strictEquals _ (JArr _ _) = False"
| "strictEquals (JObj _ _) _ = False"
| "strictEquals _ (JObj _ _) = False"
| "strictEquals x y = (x = y)"

text \<open>
  \<open>isDeepStrictEqual\<close> of \<open>node:util\<close> (the module is not part of the repository): two
  values are deeply equal when they have the same shape and the same primitives at the
  same places, whatever the addresses of the arrays and objects on the way, and whatever
  the order in which the properties of an object were written. \<open>shape\<close> forgets the
  addresses and lists the properties of every object by ascending name.
\<close>

primrec shape :: "jsval \<Rightarrow> jsval" where
  "shape JUndefined = JUndefined"
| "shape JNull = JNull"
| "shape (JBool b) = JBool b"
| "shape (JNum n) = JNum n"
| "shape (JStr s) = JStr s"
| "shape (JArr a vs) = JArr 0 (map shape vs)"
| "shape (JObj a fs) = JObj 0 (sort_key fst (map (map_prod id shape) fs))"

definition isDeepStrictEqual :: "jsval \<Rightarrow> jsval \<Rightarrow> bool" where
  "isDeepStrictEqual x y = (shape x = shape y)"

text \<open>
  \<open>array.slice(start, end)\<close>: a negative bound counts from the end of the array, both
  bounds are clipped to the array, an absent \<open>end\<close> is the length.
\<close>

definition js_slice :: "'a list \<Rightarrow> int \<Rightarrow> int option \<Rightarrow> 'a list" where
  "js_slice array start end =
     (let len = int (length array);
          from = (if start < 0 then max (len + start) 0 else min start len);
          e = (case end of None \<Rightarrow> len | Some v \<Rightarrow> v);
          to = (if e < 0 then max (len + e) 0 else min e len)
      in take (nat (to - from)) (drop (nat from) array))"

text \<open>
  \<open>array[i]\<close>: \<open>undefined\<close> (here \<open>None\<close>) outside of the array, never an exception.
\<close>

definition js_index :: "'a list \<Rightarrow> int \<Rightarrow> 'a option" where
  "js_index array i =
     (if 0 \<le> i \<and> i < int (length array) then Some (array ! nat i) else None)"

text \<open>
  Modelled from the spec: \<open>arrayToRotated\<close> is the default export of the npm package
  \<open>to-rotated\<close> (version 1, a dependency in package.json); its code is not under src/.
  The package documents \<open>toRotated(array, steps)\<close> as returning a new array rotated by
  \<open>steps\<close>, to the right when \<open>steps\<close> is positive and to the left when it is negative.
  The spec fixes the same direction in its worked example (section 8: five items A to E,
  limit 3, the rotation index going from 0 to -1 turns the visible slice [A,B,C] into
  [B,C,D]) and in section 4.2 (increasing the rotation index brings one earlier item
  into view at the top). \<open>%\<close> is JavaScript's remainder, which has the sign of the
  dividend (\<open>smod\<close>).
\<close>

definition arrayToRotated :: "'a list \<Rightarrow> int \<Rightarrow> 'a list" where
  "arrayToRotated array steps =
     (let len = int (length array) in
      if len = 0 then array
      else
        let normalizedSteps = ((steps smod len) + len) smod len in
        if normalizedSteps = 0 then array
        else js_slice array (- normalizedSteps) None
             @ js_slice array 0 (Some (- normalizedSteps)))"

section \<open>Props, state and input events\<close>

record 'v item =
  key :: "string option"
  label :: string
  val :: 'v

datatype direction = Row | Column

text \<open>
  The props the navigation reads. \<open>customLimit\<close> is \<open>None\<close> when \<open>typeof customLimit\<close>
  is not \<open>'number'\<close>. \<open>onSelect\<close> and \<open>onHighlight\<close> tell whether a function is
  registered; the calls made to them are collected in the result of the handler.
\<close>

record 'v props =
  items :: "'v item list"
  isFocused :: bool
  initialIndex :: int
  direction :: direction
  customLimit :: "int option"
  onSelect :: bool
  onHighlight :: bool

text \<open>The flags of Ink's \<open>key\<close> object that the handler reads.\<close>

record key =
  upArrow :: bool
  downArrow :: bool
  leftArrow :: bool
  rightArrow :: bool
  return :: bool
  tab :: bool
  shift :: bool

record state =
  rotateIndex :: int
  selectedIndex :: int

text \<open>A call of a callback; the argument is \<open>None\<close> when it is \<open>undefined\<close>.\<close>

datatype 'v call = OnHighlight "'v item option" | OnSelect "'v item option"

definition hasLimit :: "'v props \<Rightarrow> bool" where
  "hasLimit p =
     (case customLimit p of None \<Rightarrow> False | Some c \<Rightarrow> int (length (items p)) > c)"

definition limit :: "'v props \<Rightarrow> int" where
  "limit p =
     (if hasLimit p then min (the (customLimit p)) (int (length (items p)))
      else int (length (items p)))"

definition lastIndex :: "'v props \<Rightarrow> int" where
  "lastIndex p = limit p - 1"

text \<open>The two \<open>useState\<close> initialisers.\<close>

definition initialState :: "'v props \<Rightarrow> state" where
  "initialState p =
     \<lparr> rotateIndex =
         (if initialIndex p > lastIndex p then lastIndex p - initialIndex p else 0),
       selectedIndex =
         (if initialIndex p \<noteq> 0
          then (if initialIndex p > lastIndex p then lastIndex p else initialIndex p)
          else 0) \<rparr>"

text \<open>
  \<open>hasLimit ? arrayToRotated(items, rotateIndex).slice(0, limit) : items\<close>, the
  expression the render and every branch of the handler compute.
\<close>

definition slicedItems :: "'v props \<Rightarrow> int \<Rightarrow> 'v item list" where
  "slicedItems p r =
     (if hasLimit p then js_slice (arrayToRotated (items p) r) 0 (Some (limit p))
      else items p)"

section \<open>The input handler\<close>

text \<open>
  The handler is a closure over the \<open>rotateIndex\<close> and \<open>selectedIndex\<close> of the render
  that created it: every branch reads that state \<open>st\<close>, whatever an earlier branch has
  passed to \<open>setRotateIndex\<close> and \<open>setSelectedIndex\<close>. The setters and the callbacks act
  on an accumulator: the state the next render will see (the last value set wins) and the
  calls made so far. A branch returns \<open>True\<close> with the accumulator when it executes
  \<open>return\<close>, which ends the handler.
\<close>

type_synonym 'v effects = "state \<times> 'v call list"

definition isPrevious :: "'v props \<Rightarrow> string \<Rightarrow> key \<Rightarrow> bool" where
  "isPrevious p input k =
     (input = ''k'' \<or> (tab k \<and> shift k) \<or> (direction p = Column \<and> upArrow k)
      \<or> (direction p = Row \<and> leftArrow k))"

definition isNext :: "'v props \<Rightarrow> string \<Rightarrow> key \<Rightarrow> bool" where
  "isNext p input k =
     (input = ''j'' \<or> tab k \<or> (direction p = Column \<and> downArrow k)
      \<or> (direction p = Row \<and> rightArrow k))"

definition highlight :: "'v props \<Rightarrow> int \<Rightarrow> int \<Rightarrow> 'v call list" where
  "highlight p nextRotateIndex nextSelectedIndex =
     (if onHighlight p
      then [OnHighlight (js_index (slicedItems p nextRotateIndex) nextSelectedIndex)]
      else [])"

definition previousBranch ::
  "'v props \<Rightarrow> state \<Rightarrow> string \<Rightarrow> key \<Rightarrow> 'v effects \<Rightarrow> bool \<times> 'v effects" where
  "previousBranch p st input k eff =
     (if isPrevious p input k then
        let lastIdx = (if hasLimit p then limit p else int (length (items p))) - 1;
            atFirstIndex = (selectedIndex st = 0)
        in if atFirstIndex \<and> \<not> (tab k \<and> shift k) then (True, eff)
           else
             let nextIndex = (if hasLimit p then selectedIndex st else lastIdx);
                 nextRotateIndex =
                   (if atFirstIndex then rotateIndex st + 1 else rotateIndex st);
                 nextSelectedIndex =
                   (if atFirstIndex then nextIndex else selectedIndex st - 1)
             in (False,
                 \<lparr> rotateIndex = nextRotateIndex, selectedIndex = nextSelectedIndex \<rparr>,
                 snd eff @ highlight p nextRotateIndex nextSelectedIndex)
      else (False, eff))"

definition nextBranch ::
  "'v props \<Rightarrow> state \<Rightarrow> string \<Rightarrow> key \<Rightarrow> 'v effects \<Rightarrow> bool \<times> 'v effects" where
  "nextBranch p st input k eff =
     (if isNext p input k then
        let atLastIndex =
              (selectedIndex st
               = (if hasLimit p then limit p else int (length (items p))) - 1)
        in if atLastIndex \<and> \<not> tab k then (True, eff)
           else
             let nextIndex = (if hasLimit p then selectedIndex st else 0);
                 nextRotateIndex =
                   (if atLastIndex then rotateIndex st - 1 else rotateIndex st);
                 nextSelectedIndex =
                   (if atLastIndex then nextIndex else selectedIndex st + 1)
             in (False,
                 \<lparr> rotateIndex = nextRotateIndex, selectedIndex = nextSelectedIndex \<rparr>,
                 snd eff @ highlight p nextRotateIndex nextSelectedIndex)
      else (False, eff))"

text \<open>\<open>/^[1-9]$/.test(input)\<close> and \<open>Number.parseInt(input, 10)\<close> on such an input.\<close>

definition isDigit :: "string \<Rightarrow> bool" where
  "isDigit input = (case input of [c] \<Rightarrow> c \<in> set ''123456789'' | _ \<Rightarrow> False)"

definition parseInt :: "string \<Rightarrow> int" where
  "parseInt input = int (of_char (hd input)) - 48"

definition digitBranch :: "'v props \<Rightarrow> state \<Rightarrow> string \<Rightarrow> 'v effects \<Rightarrow> 'v effects" where
  "digitBranch p st input eff =
     (if isDigit input then
        let targetIndex = parseInt input - 1;
            visibleItems = slicedItems p (rotateIndex st)
        in if targetIndex \<ge> 0 \<and> targetIndex < int (length visibleItems) then
             (case js_index visibleItems targetIndex of
                Some selectedItem \<Rightarrow>
                  (if onSelect p then (fst eff, snd eff @ [OnSelect (Some selectedItem)])
                   else eff)
              | None \<Rightarrow> eff)
           else eff
      else eff)"

definition returnBranch :: "'v props \<Rightarrow> state \<Rightarrow> key \<Rightarrow> 'v effects \<Rightarrow> 'v effects" where
  "returnBranch p st k eff =
     (if return k then
        (if onSelect p
         then (fst eff,
               snd eff @ [OnSelect (js_index (slicedItems p (rotateIndex st))
                                      (selectedIndex st))])
         else eff)
      else eff)"

text \<open>
  The whole callback given to \<open>useInput\<close>: the four \<open>if\<close> statements one after the
  other. The result is the state of the next render and the calls made, in order.
\<close>

definition handler :: "'v props \<Rightarrow> state \<Rightarrow> string \<Rightarrow> key \<Rightarrow> 'v effects" where
  "handler p st input k =
     (case previousBranch p st input k (st, []) of
        (True, eff) \<Rightarrow> eff
      | (False, eff1) \<Rightarrow>
          (case nextBranch p st input k eff1 of
             (True, eff) \<Rightarrow> eff
           | (False, eff2) \<Rightarrow> returnBranch p st k (digitBranch p st input eff2)))"

text \<open>\<open>useInput(..., {isActive: isFocused})\<close>: no event reaches an unfocused component.\<close>

definition useInput :: "'v props \<Rightarrow> state \<Rightarrow> string \<Rightarrow> key \<Rightarrow> 'v effects" where
  "useInput p st input k = (if isFocused p then handler p st input k else (st, []))"

section \<open>The reset effect\<close>

text \<open>
  The body of \<open>useEffect(..., [items])\<close>: \<open>previous\<close> is \<open>previousItems.current\<close>, the
  result is the state after the effect. Both arguments of \<open>isDeepStrictEqual\<close> are the
  fresh arrays that \<open>map\<close> builds. The effect then stores \<open>items\<close> in
  \<open>previousItems.current\<close>: the next run compares with the items of this render.
\<close>

definition resetEffect :: "jsval item list \<Rightarrow> jsval item list \<Rightarrow> state \<Rightarrow> state" where
  "resetEffect previous its st =
     (if \<not> isDeepStrictEqual (JArr 0 (map val previous)) (JArr 0 (map val its))
      then \<lparr> rotateIndex = 0, selectedIndex = 0 \<rparr>
      else st)"

section \<open>Events\<close>

definition noKey :: key where
  "noKey = \<lparr> upArrow = False, downArrow = False, leftArrow = False, rightArrow = False,
             return = False, tab = False, shift = False \<rparr>"

definition tabKey :: key where
  "tabKey = noKey \<lparr> tab := True \<rparr>"

definition shiftTabKey :: key where
  "shiftTabKey = noKey \<lparr> tab := True, shift := True \<rparr>"

definition returnKey :: key where
  "returnKey = noKey \<lparr> return := True \<rparr>"

section \<open>Example configurations\<close>

definition itemOf :: "string \<Rightarrow> jsval item" where
  "itemOf s = \<lparr> key = None, label = s, val = JStr s \<rparr>"

text \<open>The component's defaults, with both callbacks registered.\<close>

definition selectProps :: "jsval item list \<Rightarrow> int option \<Rightarrow> jsval props" where
  "selectProps its lim =
     \<lparr> items = its, isFocused = True, initialIndex = 0, direction = Column,
       customLimit = lim, onSelect = True, onHighlight = True \<rparr>"

definition abc :: "jsval item list" where
  "abc = [itemOf ''A'', itemOf ''B'', itemOf ''C'']"

definition abcde :: "jsval item list" where
  "abcde = [itemOf ''A'', itemOf ''B'', itemOf ''C'', itemOf ''D'', itemOf ''E'']"

text \<open>
  The input text that Ink 5 passes with the Tab key, with or without Shift: the empty
  string. The handler compares the text with \<open>k\<close>, \<open>j\<close> and the digits only.
\<close>

definition tabInput :: string where
  "tabInput = []"

text \<open>The state of the next render after one Tab key, without Shift.\<close>

definition tabStep :: "'v props \<Rightarrow> state \<Rightarrow> state" where
  "tabStep p st = fst (handler p st tabInput tabKey)"

section \<open>Properties stated by the specification\<close>

text \<open>
  The size of the window in the specification's words: \<open>min(limit, itemCount)\<close>, and
  \<open>itemCount\<close> when no limit is configured.
\<close>

definition windowSize :: "'v props \<Rightarrow> int" where
  "windowSize p =
     (case customLimit p of
        None \<Rightarrow> int (length (items p))
      | Some c \<Rightarrow> min c (int (length (items p))))"

definition validIndex :: "'v props \<Rightarrow> state \<Rightarrow> bool" where
  "validIndex p st = (0 \<le> selectedIndex st \<and> selectedIndex st < windowSize p)"

text \<open>
  The windowing function in the words of section 4.1 of the specification: rotate the
  list left by \<open>rotateIndex\<close>, so that the element at position \<open>i\<close> moves to position
  \<open>(i - rotateIndex) mod itemCount\<close>, and take the first \<open>limit\<close> elements. Position
  \<open>j\<close> of the rotated list then holds the element of position
  \<open>(j + rotateIndex) mod itemCount\<close>.
\<close>

definition rotatedLeft :: "'a list \<Rightarrow> int \<Rightarrow> 'a list" where
  "rotatedLeft xs r =
     map (\<lambda>j. xs ! nat ((int j + r) mod int (length xs))) [0..<length xs]"

definition specSlice :: "'a list \<Rightarrow> int \<Rightarrow> int \<Rightarrow> 'a list" where
  "specSlice xs r l = take (nat (min l (int (length xs)))) (rotatedLeft xs r)"

text \<open>
  Two lists of items carry the same sequence of values: the same number of items, and
  deeply equal values at every position.
\<close>

definition sameValues :: "jsval item list \<Rightarrow> jsval item list \<Rightarrow> bool" where
  "sameValues previous its = list_all2 isDeepStrictEqual (map val previous) (map val its)"

text \<open>
  Items for the reset effect: \<open>uno\<close> is a second array with a new item object, another label
  and key, and a value that is a new object with the properties of the value of \<open>one\<close>,
  written in another order. \<open>abcRelabelled\<close> has the values of \<open>abc\<close> under other labels
  and keys.
\<close>

definition one :: "jsval item list" where
  "one = [\<lparr>key = None, label = ''one'',
           val = JObj 1 [(''tags'', JArr 2 [JStr ''x'']), (''id'', JNum 1)]\<rparr>]"

definition uno :: "jsval item list" where
  "uno = [\<lparr>key = Some ''k1'', label = ''uno'',
           val = JObj 3 [(''id'', JNum 1), (''tags'', JArr 4 [JStr ''x''])]\<rparr>]"

definition abcRelabelled :: "jsval item list" where
  "abcRelabelled =
     [\<lparr>key = Some ''1'', label = ''a'', val = JStr ''A''\<rparr>,
      \<lparr>key = Some ''2'', label = ''b'', val = JStr ''B''\<rparr>,
      \<lparr>key = Some ''3'', label = ''c'', val = JStr ''C''\<rparr>]"

section \<open>Arrays\<close>

lemma js_slice_from_end:
  "0 < k \<Longrightarrow> k \<le> int (length xs) \<Longrightarrow> js_slice xs (- k) None = drop (nat (int (length xs) - k)) xs"
  by (simp add: js_slice_def Let_def)

lemma js_slice_to_end:
  "0 < k \<Longrightarrow> k \<le> int (length xs) \<Longrightarrow> js_slice xs 0 (Some (- k)) = take (nat (int (length xs) - k)) xs"
  by (simp add: js_slice_def Let_def)

lemma js_slice_take:
  "0 \<le> e \<Longrightarrow> js_slice xs 0 (Some e) = take (nat e) xs"
  by (auto simp add: js_slice_def Let_def min_def)

lemma js_index_in_range:
  "0 \<le> i \<Longrightarrow> i < int (length xs) \<Longrightarrow> js_index xs i = Some (xs ! nat i)"
  by (simp add: js_index_def)

text \<open>
  The two remainders of \<open>to-rotated\<close> compute the mathematical modulus, and the two slices
  put the last \<open>steps mod length\<close> elements in front.
\<close>

lemma normalizedSteps_eq:
  assumes "0 < (n::int)"
  shows "((s smod n) + n) smod n = s mod n"
proof -
  define m where "m = \<bar>s\<bar> mod n"
  have r: "0 \<le> m" "m < n"
    using assms by (simp_all add: m_def)
  have e: "s smod n = sgn s * m"
    using assms by (simp add: smod_int_alt_def m_def)
  have lo: "- n < s smod n" and hi: "s smod n < n"
    using r assms unfolding e by (simp_all add: sgn_if)
  have pos: "0 < s smod n + n"
    using lo by simp
  have "(s smod n + n) smod n = (s smod n + n) mod n"
    using pos assms by (simp add: smod_int_alt_def sgn_if)
  also have "\<dots> = (s smod n) mod n"
    by simp
  also have "\<dots> = (s sdiv n * n + s smod n) mod n"
    by simp
  also have "\<dots> = s mod n"
    by (simp only: sdiv_mult_smod_eq)
  finally show ?thesis .
qed

lemma arrayToRotated_rotate:
  "arrayToRotated xs r = rotate (nat ((- r) mod int (length xs))) xs"
proof (cases "xs = []")
  case True
  then show ?thesis by (simp add: arrayToRotated_def)
next
  case False
  define n where "n = int (length xs)"
  define k where "k = r mod n"
  have n: "0 < n" using False by (simp add: n_def)
  have k: "0 \<le> k" "k < n" using n by (simp_all add: k_def)
  show ?thesis
  proof (cases "k = 0")
    case True
    then have "(- r) mod n = 0"
      unfolding k_def by (simp add: mod_minus_eq zmod_zminus1_eq_if)
    then show ?thesis
      using True n by (simp add: arrayToRotated_def Let_def normalizedSteps_eq n_def[symmetric] k_def[symmetric])
  next
    case False
    then have m: "(- r) mod n = n - k"
      unfolding k_def by (simp add: zmod_zminus1_eq_if)
    have "arrayToRotated xs r = drop (nat (n - k)) xs @ take (nat (n - k)) xs"
      using False n k
      by (simp add: arrayToRotated_def Let_def normalizedSteps_eq n_def[symmetric] k_def[symmetric])
         (simp add: js_slice_from_end js_slice_to_end n_def)
    also have "\<dots> = rotate (nat (n - k)) xs"
      using k False by (simp add: rotate_drop_take n_def nat_less_iff)
    finally show ?thesis by (simp add: m n_def[symmetric])
  qed
qed

lemma length_arrayToRotated: "length (arrayToRotated xs r) = length xs"
  by (simp add: arrayToRotated_rotate)

lemma arrayToRotated_period:
  "arrayToRotated xs (r - int (length xs)) = arrayToRotated xs r"
proof -
  have "(- (r - int (length xs))) mod int (length xs) = (- r) mod int (length xs)"
    by (simp add: algebra_simps)
  then show ?thesis
    by (simp only: arrayToRotated_rotate)
qed

text \<open>The element at position \<open>i\<close> moves to position \<open>(i + steps) mod length\<close>.\<close>

lemma arrayToRotated_nth:
  assumes "i < length xs"
  shows "arrayToRotated xs r ! nat ((int i + r) mod int (length xs)) = xs ! i"
proof -
  define n where "n = int (length xs)"
  have n: "0 < n" using assms by (auto simp: n_def)
  define m where "m = nat ((- r) mod n)"
  define j where "j = nat ((int i + r) mod n)"
  have jn: "j < length xs"
    using n by (simp add: j_def n_def nat_less_iff)
  have "int ((m + j) mod length xs) = (int m + int j) mod n"
    by (simp add: zmod_int n_def)
  also have "\<dots> = ((- r) mod n + (int i + r) mod n) mod n"
    using n by (simp add: m_def j_def)
  also have "\<dots> = (- r + (int i + r)) mod n"
    by (simp only: mod_add_eq)
  also have "\<dots> = int i"
    using assms by (simp add: n_def)
  finally have e: "(m + j) mod length xs = i"
    by simp
  have "arrayToRotated xs r ! j = rotate m xs ! j"
    by (simp add: arrayToRotated_rotate m_def n_def)
  also have "\<dots> = xs ! ((m + j) mod length xs)"
    using jn by (rule nth_rotate)
  finally have "arrayToRotated xs r ! j = xs ! i"
    by (simp only: e)
  then show ?thesis
    by (simp only: j_def n_def)
qed

section \<open>The window\<close>

lemma hasLimit_Some:
  "customLimit p = Some c \<Longrightarrow> hasLimit p = (c < int (length (items p)))"
  by (simp add: hasLimit_def)

lemma limit_Some:
  "customLimit p = Some c \<Longrightarrow> c < int (length (items p)) \<Longrightarrow> limit p = c"
  by (simp add: limit_def hasLimit_def)

lemma local_limit: "(if hasLimit p then limit p else int (length (items p))) = limit p"
  by (simp add: limit_def)

lemma limit_windowSize: "limit p = windowSize p"
  by (auto simp: limit_def hasLimit_def windowSize_def split: option.splits)

lemma slicedItems_limited:
  assumes "customLimit p = Some c" and "0 \<le> c" and "c < int (length (items p))"
  shows "slicedItems p r = take (nat c) (arrayToRotated (items p) r)"
  using assms by (simp add: slicedItems_def hasLimit_Some limit_Some js_slice_take)

lemma length_slicedItems_limited:
  assumes "customLimit p = Some c" and "0 \<le> c" and "c < int (length (items p))"
  shows "length (slicedItems p r) = nat c"
  using assms by (simp add: slicedItems_limited length_arrayToRotated)

section \<open>Evaluation of the handler\<close>

lemmas handler_defs = handler_def previousBranch_def nextBranch_def digitBranch_def
  returnBranch_def isPrevious_def isNext_def highlight_def isDigit_def

lemmas key_defs = noKey_def tabKey_def shiftTabKey_def returnKey_def

lemma selectProps_sel:
  "items (selectProps its lim) = its"
  "isFocused (selectProps its lim)"
  "initialIndex (selectProps its lim) = 0"
  "direction (selectProps its lim) = Column"
  "customLimit (selectProps its lim) = lim"
  "onSelect (selectProps its lim)"
  "onHighlight (selectProps its lim)"
  by (simp_all add: selectProps_def)

lemma abc_props:
  "length abc = 3"
  "abc \<noteq> []"
  by (simp_all add: abc_def)

lemma abcde_props:
  "length abcde = 5"
  "hasLimit (selectProps abcde (Some 3))"
  "limit (selectProps abcde (Some 3)) = 3"
  by (simp_all add: selectProps_sel hasLimit_def limit_def abcde_def)

lemma abcde_negative_limit:
  "hasLimit (selectProps abcde (Some (- 2)))"
  "limit (selectProps abcde (Some (- 2))) = - 2"
  by (simp_all add: selectProps_sel hasLimit_def limit_def abcde_def)

lemma abcde_rotated:
  "arrayToRotated abcde 1 = [itemOf ''E'', itemOf ''A'', itemOf ''B'', itemOf ''C'', itemOf ''D'']"
  "arrayToRotated abcde 0 = abcde"
  "arrayToRotated abcde (- 1) = [itemOf ''B'', itemOf ''C'', itemOf ''D'', itemOf ''E'', itemOf ''A'']"
  by (simp_all add: arrayToRotated_rotate abcde_def rotate1_def eval_nat_numeral)

lemma abcde_sliced:
  "slicedItems (selectProps abcde (Some 3)) 1 = [itemOf ''E'', itemOf ''A'', itemOf ''B'']"
  "slicedItems (selectProps abcde (Some 3)) 0 = [itemOf ''A'', itemOf ''B'', itemOf ''C'']"
  "slicedItems (selectProps abcde (Some 3)) (- 1) = [itemOf ''B'', itemOf ''C'', itemOf ''D'']"
  by (simp_all add: slicedItems_def abcde_props js_slice_take selectProps_sel abcde_rotated)
     (simp_all add: abcde_def)

lemma itemOf_inject: "(itemOf a = itemOf b) = (a = b)"
  by (simp add: itemOf_def)

lemma isDigit_props:
  assumes "isDigit input"
  shows "input \<noteq> ''k''" "input \<noteq> ''j''" "1 \<le> parseInt input" "parseInt input \<le> 9"
  using assms by (auto simp: isDigit_def parseInt_def split: list.splits)

text \<open>
  One Tab key without Shift: only the Next branch runs. At the last slot it subtracts 1
  from the rotation, whether a limit applies or not; the highlight stays with a limit
  and goes to 0 without one.
\<close>

lemma tabStep_eq:
  "tabStep p st =
     (if selectedIndex st = limit p - 1
      then \<lparr>rotateIndex = rotateIndex st - 1,
            selectedIndex = (if hasLimit p then selectedIndex st else 0)\<rparr>
      else \<lparr>rotateIndex = rotateIndex st, selectedIndex = selectedIndex st + 1\<rparr>)"
proof -
  have np: "\<not> isPrevious p tabInput tabKey" and nn: "isNext p tabInput tabKey"
    and nd: "\<not> isDigit tabInput" and nr: "\<not> return tabKey" and t: "tab tabKey"
    by (simp_all add: isPrevious_def isNext_def isDigit_def tabInput_def key_defs)
  show ?thesis
    using np nn nd nr t
    by (simp add: tabStep_def handler_def previousBranch_def nextBranch_def digitBranch_def
        returnBranch_def local_limit Let_def)
qed

lemma tabStep_iterate:
  assumes "hasLimit p" and "s \<le> limit p - 1"
  shows "(tabStep p ^^ k) \<lparr>rotateIndex = r, selectedIndex = s\<rparr> =
     (if int k \<le> limit p - 1 - s
      then \<lparr>rotateIndex = r, selectedIndex = s + int k\<rparr>
      else \<lparr>rotateIndex = r - (int k - (limit p - 1 - s)), selectedIndex = limit p - 1\<rparr>)"
proof (induction k)
  case 0
  then show ?case using assms by simp
next
  case (Suc k)
  have "(tabStep p ^^ Suc k) \<lparr>rotateIndex = r, selectedIndex = s\<rparr>
      = tabStep p ((tabStep p ^^ k) \<lparr>rotateIndex = r, selectedIndex = s\<rparr>)"
    by simp
  also have "\<dots> = tabStep p
      (if int k \<le> limit p - 1 - s
       then \<lparr>rotateIndex = r, selectedIndex = s + int k\<rparr>
       else \<lparr>rotateIndex = r - (int k - (limit p - 1 - s)), selectedIndex = limit p - 1\<rparr>)"
    by (simp only: Suc.IH)
  also have "\<dots> =
      (if int (Suc k) \<le> limit p - 1 - s
       then \<lparr>rotateIndex = r, selectedIndex = s + int (Suc k)\<rparr>
       else \<lparr>rotateIndex = r - (int (Suc k) - (limit p - 1 - s)),
              selectedIndex = limit p - 1\<rparr>)"
    using assms by (simp add: tabStep_eq)
  finally show ?case .
qed

lemma fst_return_digit:
  "fst (returnBranch p st k (digitBranch p st input eff)) = fst eff"
  by (simp add: returnBranch_def digitBranch_def Let_def split: option.splits)

section \<open>Shift+Tab\<close>

text \<open>
  An event that carries both \<open>tab\<close> and \<open>shift\<close> satisfies the test of the Previous
  branch and, through \<open>key.tab\<close>, the test of the Next branch as well; the Previous branch
  does not end the handler once it has moved the highlight. The Next branch sets the
  state last, from the state of the render: whatever the Previous branch has set,
  Shift+Tab leaves the state that Tab leaves.
\<close>

lemma shiftTab_isPrevious_isNext:
  "isPrevious p input shiftTabKey \<and> isNext p input shiftTabKey"
  by (simp add: isPrevious_def isNext_def key_defs)

lemma shiftTab_state_is_next:
  "fst (handler p st input shiftTabKey) = tabStep p st"
  by (simp add: tabStep_eq handler_def previousBranch_def nextBranch_def isPrevious_def
      isNext_def key_defs local_limit fst_return_digit Let_def)

lemma shiftTab_highlights_twice:
  assumes "onHighlight p" and "\<not> isDigit input"
  shows "\<exists>a b. snd (handler p st input shiftTabKey) = [OnHighlight a, OnHighlight b]"
  using assms
  by (simp add: handler_def previousBranch_def nextBranch_def isPrevious_def isNext_def
      key_defs highlight_def digitBranch_def returnBranch_def Let_def)

text \<open>
  C1 (at most one input class fires for an event; Shift+Tab is Previous only, one
  transition, \<open>onHighlight\<close> called at most once). The code at three items A, B, C without
  a limit, B highlighted, Shift+Tab: the Previous branch highlights A and calls
  \<open>onHighlight(A)\<close>, then the Next branch, reading the same state of the render,
  highlights C and calls \<open>onHighlight(C)\<close>. The next render highlights C: the key
  moved the highlight forward, and \<open>onHighlight\<close> was called twice.
\<close>

theorem shiftTab_runs_previous_then_next:
  "handler (selectProps abc None) \<lparr>rotateIndex = 0, selectedIndex = 1\<rparr> tabInput shiftTabKey
     = (\<lparr>rotateIndex = 0, selectedIndex = 2\<rparr>,
        [OnHighlight (Some (itemOf ''A'')), OnHighlight (Some (itemOf ''C''))])"
  by (simp add: handler_defs key_defs tabInput_def selectProps_def abc_def hasLimit_def
      slicedItems_def js_index_def)

section \<open>The empty list\<close>

text \<open>
  C2 (with no items, no key changes the state or calls a callback). The code with
  \<open>items = []\<close> and the defaults starts at rotation -1, highlight 0. Return calls
  \<open>onSelect(undefined)\<close>; \<open>j\<close> is not stopped by the test for the last index
  (\<open>0 === -1\<close> is false), moves the highlight to 1 and calls
  \<open>onHighlight(undefined)\<close>.
\<close>

theorem empty_list_return_and_next:
  "initialState (selectProps [] None) = \<lparr>rotateIndex = - 1, selectedIndex = 0\<rparr> \<and>
   handler (selectProps [] None) \<lparr>rotateIndex = - 1, selectedIndex = 0\<rparr> [CHR 0x0D] returnKey
     = (\<lparr>rotateIndex = - 1, selectedIndex = 0\<rparr>, [OnSelect None]) \<and>
   handler (selectProps [] None) \<lparr>rotateIndex = - 1, selectedIndex = 0\<rparr> ''j'' noKey
     = (\<lparr>rotateIndex = - 1, selectedIndex = 1\<rparr>, [OnHighlight None])"
  by (simp add: handler_defs key_defs selectProps_def hasLimit_def limit_def lastIndex_def
      initialState_def slicedItems_def js_index_def)

section \<open>The highlight stays in the window\<close>

lemma handler_validIndex:
  assumes "validIndex p st"
  shows "validIndex p (fst (handler p st input k))"
  using assms
  by (auto simp: handler_def previousBranch_def nextBranch_def local_limit fst_return_digit
      Let_def validIndex_def limit_windowSize split: prod.splits if_splits)

lemma initialState_validIndex:
  assumes "items p \<noteq> []" and "\<forall>c. customLimit p = Some c \<longrightarrow> 1 \<le> c" and "0 \<le> initialIndex p"
  shows "validIndex p (initialState p)"
proof -
  have "1 \<le> windowSize p"
    using assms(1,2) by (cases "items p") (auto simp: windowSize_def split: option.splits)
  then show ?thesis
    using assms(3) by (auto simp: validIndex_def initialState_def lastIndex_def limit_windowSize)
qed

text \<open>
  C3, as stated (after construction and after every event,
  \<open>0 \<le> selectedIndex < min(limit, itemCount)\<close>, for every item list, every limit and
  every initial index), fails at construction: with no items the window is empty and the
  highlight is 0; a negative initial index is taken as it is; with limit 0 the window is
  empty.
\<close>

theorem selectedIndex_invalid_counterexample:
  "\<not> validIndex (selectProps [] None) (initialState (selectProps [] None)) \<and>
   \<not> validIndex ((selectProps abc None) \<lparr>initialIndex := - 1\<rparr>)
       (initialState ((selectProps abc None) \<lparr>initialIndex := - 1\<rparr>)) \<and>
   \<not> validIndex (selectProps abc (Some 0)) (initialState (selectProps abc (Some 0)))"
  by (simp add: validIndex_def windowSize_def initialState_def lastIndex_def limit_def
      hasLimit_def selectProps_def abc_props)

text \<open>
  C3, amended: for every list with at least one item, every limit that is absent or at
  least 1 and every initial index that is not negative, the initial \<open>selectedIndex\<close> is
  an index of the window, \<open>0 \<le> selectedIndex < min(limit, itemCount)\<close> (\<open>itemCount\<close>
  without a limit), and every input event keeps it one.
\<close>

theorem selectedIndex_stays_valid:
  assumes "items p \<noteq> []" and "\<forall>c. customLimit p = Some c \<longrightarrow> 1 \<le> c" and "0 \<le> initialIndex p"
  shows "validIndex p (initialState p) \<and>
         (\<forall>st input k. validIndex p st \<longrightarrow> validIndex p (fst (useInput p st input k)))"
  using initialState_validIndex[OF assms] handler_validIndex[of p]
  by (auto simp: useInput_def)

text \<open>
  Five items with limit 3 and initial index 4: the component starts at rotation -2 with
  the last slot highlighted, and Tab keeps the highlight in the window.
\<close>

theorem selectedIndex_stays_valid_witness:
  "items ((selectProps abcde (Some 3)) \<lparr>initialIndex := 4\<rparr>) \<noteq> [] \<and>
   initialState ((selectProps abcde (Some 3)) \<lparr>initialIndex := 4\<rparr>)
     = \<lparr>rotateIndex = - 2, selectedIndex = 2\<rparr> \<and>
   validIndex ((selectProps abcde (Some 3)) \<lparr>initialIndex := 4\<rparr>)
     \<lparr>rotateIndex = - 2, selectedIndex = 2\<rparr> \<and>
   validIndex ((selectProps abcde (Some 3)) \<lparr>initialIndex := 4\<rparr>)
     (fst (useInput ((selectProps abcde (Some 3)) \<lparr>initialIndex := 4\<rparr>)
            \<lparr>rotateIndex = - 2, selectedIndex = 2\<rparr> tabInput tabKey))"
proof -
  let ?p = "(selectProps abcde (Some 3)) \<lparr>initialIndex := 4\<rparr>"
  have i: "items ?p \<noteq> []"
    by (simp add: selectProps_def abcde_def)
  have c: "\<forall>c. customLimit ?p = Some c \<longrightarrow> 1 \<le> c"
    by (simp add: selectProps_def)
  have n: "0 \<le> initialIndex ?p"
    by simp
  have s: "initialState ?p = \<lparr>rotateIndex = - 2, selectedIndex = 2\<rparr>"
    by (simp add: initialState_def lastIndex_def limit_def hasLimit_def selectProps_def abcde_props)
  show ?thesis
    using selectedIndex_stays_valid [OF i c n] i s by simp
qed

section \<open>Wrapping\<close>

text \<open>
  The plain keys at the boundary end the handler at once: the state is kept and nothing
  is called.
\<close>

lemma plain_previous_at_first:
  assumes "isPrevious p input k" and "\<not> (tab k \<and> shift k)" and "selectedIndex st = 0"
  shows "handler p st input k = (st, [])"
  using assms by (simp add: handler_def previousBranch_def)

lemma plain_next_at_last:
  assumes "\<not> isPrevious p input k" and "isNext p input k" and "\<not> tab k"
    and "selectedIndex st = limit p - 1"
  shows "handler p st input k = (st, [])"
  using assms by (simp add: handler_def previousBranch_def nextBranch_def local_limit)

text \<open>A key without the \<open>tab\<close> flag never changes the rotation.\<close>

lemma rotation_changes_only_on_tab:
  assumes "\<not> tab k"
  shows "rotateIndex (fst (handler p st input k)) = rotateIndex st"
  using assms
  by (simp add: handler_def previousBranch_def nextBranch_def fst_return_digit Let_def)

text \<open>
  C4 (without a limit, Shift+Tab at index 0 highlights the last item; the plain Previous
  keys do nothing there). The code at three items A, B, C without a limit, A highlighted,
  Shift+Tab: the Previous branch sets the highlight to the last index 2 and calls
  \<open>onHighlight(C)\<close>; the Next branch then sets it to 0 + 1 and calls
  \<open>onHighlight(B)\<close>. The next render highlights B, not C.
\<close>

theorem shiftTab_at_first_without_limit:
  "handler (selectProps abc None) \<lparr>rotateIndex = 0, selectedIndex = 0\<rparr> tabInput shiftTabKey
     = (\<lparr>rotateIndex = 0, selectedIndex = 1\<rparr>,
        [OnHighlight (Some (itemOf ''C'')), OnHighlight (Some (itemOf ''B''))])"
  by (simp add: handler_defs key_defs tabInput_def selectProps_def abc_def hasLimit_def
      slicedItems_def js_index_def)

text \<open>
  C6 (with a limit, the Previous wrap at the first slot adds 1 to the rotation and keeps
  the highlight at 0; the Next wrap at the last slot subtracts 1 and keeps the
  highlight). The code at five items A to E with limit 3, rotation 0, A highlighted,
  Shift+Tab: the Previous branch sets the rotation to 1 and calls \<open>onHighlight(E)\<close>;
  the Next branch then sets the rotation back to 0, the highlight to 1, and calls
  \<open>onHighlight(B)\<close>. The next render shows A, B, C with B highlighted.
\<close>

theorem shiftTab_at_first_with_limit:
  "handler (selectProps abcde (Some 3)) \<lparr>rotateIndex = 0, selectedIndex = 0\<rparr> tabInput shiftTabKey
     = (\<lparr>rotateIndex = 0, selectedIndex = 1\<rparr>,
        [OnHighlight (Some (itemOf ''E'')), OnHighlight (Some (itemOf ''B''))])"
  by (simp add: handler_defs key_defs tabInput_def abcde_props abcde_sliced selectProps_sel
      js_index_def)

section \<open>The visible slice\<close>

lemma specSlice_abcde:
  "specSlice abcde (- 1) 3 = [itemOf ''E'', itemOf ''A'', itemOf ''B'']"
  by (simp add: specSlice_def rotatedLeft_def abcde_def upt_rec)

text \<open>
  C5, as stated (with a limit the slice is the list rotated left by \<open>rotateIndex\<close>, the
  element at \<open>i\<close> moving to \<open>(i - rotateIndex) mod itemCount\<close>, cut to \<open>limit\<close>
  elements; its length is \<open>min(limit, itemCount)\<close>; without a limit \<open>rotateIndex\<close>
  remains 0), fails three times. Five items A to E, limit 3, rotation -1: the code shows
  B, C, D, the left rotation by -1 shows E, A, B. Three items without a limit, the last
  one highlighted, Tab: the rotation becomes -1. Five items with limit -2: the slice has
  3 elements.
\<close>

theorem visible_slice_counterexample:
  "slicedItems (selectProps abcde (Some 3)) (- 1) = [itemOf ''B'', itemOf ''C'', itemOf ''D''] \<and>
   specSlice (items (selectProps abcde (Some 3))) (- 1) 3
     = [itemOf ''E'', itemOf ''A'', itemOf ''B''] \<and>
   slicedItems (selectProps abcde (Some 3)) (- 1)
     \<noteq> specSlice (items (selectProps abcde (Some 3))) (- 1) 3 \<and>
   \<not> hasLimit (selectProps abc None) \<and>
   fst (handler (selectProps abc None) \<lparr>rotateIndex = 0, selectedIndex = 2\<rparr> tabInput tabKey)
     = \<lparr>rotateIndex = - 1, selectedIndex = 0\<rparr> \<and>
   int (length (slicedItems (selectProps abcde (Some (- 2))) 0))
     \<noteq> min (- 2) (int (length (items (selectProps abcde (Some (- 2))))))"
proof -
  have n: "\<not> hasLimit (selectProps abc None)" and l: "limit (selectProps abc None) = 3"
    by (simp_all add: hasLimit_def limit_def selectProps_sel abc_props)
  have t: "tabStep (selectProps abc None) \<lparr>rotateIndex = 0, selectedIndex = 2\<rparr>
      = \<lparr>rotateIndex = - 1, selectedIndex = 0\<rparr>"
    by (simp add: tabStep_eq n l)
  have g: "length (slicedItems (selectProps abcde (Some (- 2))) 0) = 3"
    by (simp add: slicedItems_def abcde_negative_limit selectProps_sel abcde_rotated)
       (simp add: js_slice_def abcde_def)
  show ?thesis
    using n t g
    by (simp add: abcde_sliced specSlice_abcde selectProps_sel itemOf_inject tabStep_def
        abcde_props)
qed

text \<open>
  C5, amended: with a limit \<open>c\<close>, \<open>0 \<le> c < itemCount\<close>, the visible slice is the first
  \<open>c\<close> elements of the list rotated to the right by \<open>rotateIndex\<close> (the element at
  position \<open>i\<close> moves to position \<open>(i + rotateIndex) mod itemCount\<close>, so a negative
  \<open>rotateIndex\<close> rotates to the left), and its length is \<open>min(c, itemCount)\<close>; when no
  limit applies the slice is the full list, whatever \<open>rotateIndex\<close> is.
\<close>

theorem visible_slice_is_right_rotation:
  "(\<forall>c. customLimit p = Some c \<and> 0 \<le> c \<and> c < int (length (items p)) \<longrightarrow>
      slicedItems p r = take (nat c) (arrayToRotated (items p) r)
      \<and> int (length (slicedItems p r)) = min c (int (length (items p))))
   \<and> length (arrayToRotated (items p) r) = length (items p)
   \<and> (\<forall>i<length (items p).
        arrayToRotated (items p) r ! nat ((int i + r) mod int (length (items p))) = items p ! i)
   \<and> (\<not> hasLimit p \<longrightarrow> slicedItems p r = items p)"
proof -
  have "slicedItems p r = take (nat c) (arrayToRotated (items p) r)
      \<and> int (length (slicedItems p r)) = min c (int (length (items p)))"
    if "customLimit p = Some c \<and> 0 \<le> c \<and> c < int (length (items p))" for c
    using that slicedItems_limited [of p c r] length_slicedItems_limited [of p c r]
    by simp
  moreover have "\<not> hasLimit p \<longrightarrow> slicedItems p r = items p"
    by (simp add: slicedItems_def)
  ultimately show ?thesis
    by (simp add: length_arrayToRotated arrayToRotated_nth)
qed

theorem visible_slice_is_right_rotation_witness:
  "customLimit (selectProps abcde (Some 3)) = Some 3 \<and>
   slicedItems (selectProps abcde (Some 3)) (- 1) = take 3 (arrayToRotated abcde (- 1)) \<and>
   length (slicedItems (selectProps abcde (Some 3)) (- 1)) = 3 \<and>
   arrayToRotated abcde (- 1) ! 0 = abcde ! 1 \<and>
   arrayToRotated abcde (- 1) ! 4 = abcde ! 0 \<and>
   slicedItems (selectProps abc None) (- 1) = abc"
proof -
  have a: "\<forall>i<length abcde. arrayToRotated abcde (- 1) ! nat ((int i + - 1) mod 5) = abcde ! i"
    and b: "slicedItems (selectProps abcde (Some 3)) (- 1) = take 3 (arrayToRotated abcde (- 1))"
    and c: "length (slicedItems (selectProps abcde (Some 3)) (- 1)) = 3"
    using visible_slice_is_right_rotation [of "selectProps abcde (Some 3)" "- 1"]
    by (simp_all add: selectProps_sel abcde_props)
  have "\<not> hasLimit (selectProps abc None)"
    by (simp add: hasLimit_def selectProps_sel)
  then have d: "slicedItems (selectProps abc None) (- 1) = abc"
    using visible_slice_is_right_rotation [of "selectProps abc None" "- 1"]
    by (simp add: selectProps_sel)
  have e: "arrayToRotated abcde (- 1) ! 0 = abcde ! 1"
    "arrayToRotated abcde (- 1) ! 4 = abcde ! 0"
    using a [rule_format, of 1] a [rule_format, of 0] by (simp_all add: abcde_props)
  show ?thesis
    using b c d e by (simp add: selectProps_sel)
qed

section \<open>A full cycle of Tab\<close>

text \<open>
  C7, as stated (with limit \<open>L < itemCount\<close> the slice has \<open>L\<close> elements, and
  \<open>itemCount\<close> Next transitions return \<open>rotateIndex\<close> to its value), fails on the
  rotation: five items A to E with limit 3, from rotation 0 and the first slot, five Tab
  keys end at rotation -3 and the slice D, E, A; from the last slot they end at
  rotation -5.
\<close>

theorem tab_cycle_counterexample:
  "(tabStep (selectProps abcde (Some 3)) ^^ length (items (selectProps abcde (Some 3))))
       \<lparr>rotateIndex = 0, selectedIndex = 0\<rparr>
     = \<lparr>rotateIndex = - 3, selectedIndex = 2\<rparr> \<and>
   slicedItems (selectProps abcde (Some 3)) 0 = [itemOf ''A'', itemOf ''B'', itemOf ''C''] \<and>
   slicedItems (selectProps abcde (Some 3)) (- 3) = [itemOf ''D'', itemOf ''E'', itemOf ''A''] \<and>
   (tabStep (selectProps abcde (Some 3)) ^^ length (items (selectProps abcde (Some 3))))
       \<lparr>rotateIndex = 0, selectedIndex = 2\<rparr>
     = \<lparr>rotateIndex = - 5, selectedIndex = 2\<rparr>"
proof -
  have "arrayToRotated abcde (- 3)
      = [itemOf ''D'', itemOf ''E'', itemOf ''A'', itemOf ''B'', itemOf ''C'']"
    by (simp add: arrayToRotated_rotate abcde_def rotate1_def eval_nat_numeral)
  then have "slicedItems (selectProps abcde (Some 3)) (- 3)
      = [itemOf ''D'', itemOf ''E'', itemOf ''A'']"
    by (simp add: slicedItems_def abcde_props js_slice_take selectProps_sel)
  then show ?thesis
    using tabStep_iterate [of "selectProps abcde (Some 3)" 0 5 0]
      tabStep_iterate [of "selectProps abcde (Some 3)" 2 5 0]
    by (simp add: abcde_props abcde_sliced selectProps_sel)
qed

text \<open>
  C7, amended: with limit \<open>c\<close>, \<open>1 \<le> c < itemCount\<close>, the visible slice has exactly
  \<open>c\<close> elements; \<open>itemCount\<close> Tab keys from slot \<open>s\<close> and rotation \<open>r\<close> end at the last
  slot with rotation \<open>r - (itemCount - (c - 1 - s))\<close>, which is never \<open>r\<close>; the slice
  of rotation \<open>r - itemCount\<close> is the slice of rotation \<open>r\<close>, so from the last slot
  (\<open>s = c - 1\<close>) the cycle ends on the window it started from.
\<close>

theorem tab_cycle_shifts_rotation:
  assumes "customLimit p = Some c" and "1 \<le> c" and "c < int (length (items p))"
    and "0 \<le> s" and "s \<le> c - 1"
  shows "length (slicedItems p r) = nat c \<and>
     (tabStep p ^^ length (items p)) \<lparr>rotateIndex = r, selectedIndex = s\<rparr>
       = \<lparr>rotateIndex = r - (int (length (items p)) - (c - 1 - s)), selectedIndex = c - 1\<rparr> \<and>
     r - (int (length (items p)) - (c - 1 - s)) \<noteq> r \<and>
     slicedItems p (r - int (length (items p))) = slicedItems p r"
proof -
  have h: "hasLimit p" and l: "limit p = c"
    using assms(1,3) by (simp_all add: hasLimit_Some limit_Some)
  have "(tabStep p ^^ length (items p)) \<lparr>rotateIndex = r, selectedIndex = s\<rparr>
       = \<lparr>rotateIndex = r - (int (length (items p)) - (c - 1 - s)), selectedIndex = c - 1\<rparr>"
    using assms(3,4,5) tabStep_iterate [of p s "length (items p)" r] h by (simp add: l)
  moreover have "slicedItems p (r - int (length (items p))) = slicedItems p r"
    using assms by (simp add: slicedItems_limited arrayToRotated_period)
  moreover have "length (slicedItems p r) = nat c"
    using assms by (simp add: length_slicedItems_limited)
  ultimately show ?thesis
    using assms by simp
qed

theorem tab_cycle_shifts_rotation_witness:
  "customLimit (selectProps abcde (Some 3)) = Some 3 \<and>
   length (slicedItems (selectProps abcde (Some 3)) 0) = 3 \<and>
   (tabStep (selectProps abcde (Some 3)) ^^ length abcde)
       \<lparr>rotateIndex = 0, selectedIndex = 2\<rparr>
     = \<lparr>rotateIndex = - 5, selectedIndex = 2\<rparr> \<and>
   slicedItems (selectProps abcde (Some 3)) (- 5) = slicedItems (selectProps abcde (Some 3)) 0"
  using tab_cycle_shifts_rotation [of "selectProps abcde (Some 3)" 3 2 0]
  by (simp add: selectProps_sel abcde_props)

section \<open>Reset when the values change\<close>

lemma isDeepStrictEqual_arrays:
  "isDeepStrictEqual (JArr a xs) (JArr b ys) = list_all2 isDeepStrictEqual xs ys"
proof -
  have "(map shape xs = map shape ys) = list_all2 (\<lambda>x y. shape x = shape y) xs ys"
    by (simp add: list_all2_eq list_all2_map1 list_all2_map2)
  moreover have "isDeepStrictEqual = (\<lambda>x y. shape x = shape y)"
    by (rule ext)+ (simp add: isDeepStrictEqual_def)
  ultimately show ?thesis
    by (simp add: isDeepStrictEqual_def)
qed

lemma sorted_two:
  "sort_key fst [(''tags'', a), (''id'', b)] = [(''id'', b), (''tags'', a)]"
  "sort_key fst [(''id'', b), (''tags'', a)] = [(''id'', b), (''tags'', a)]"
  by (simp_all add: list_le_def list_less_def)

text \<open>
  C8: when the items change, the effect sets rotation and highlight to 0 if the sequence
  of values differs from the one of the previous render, and keeps both if the sequence
  is the same, whatever the labels and keys.
\<close>

theorem reset_iff_values_differ:
  "resetEffect previous its st =
     (if sameValues previous its then st else \<lparr>rotateIndex = 0, selectedIndex = 0\<rparr>)"
  by (simp add: resetEffect_def sameValues_def isDeepStrictEqual_arrays)

text \<open>
  The same values under new labels and keys keep the state; the same values in another
  order, or fewer of them, reset it.
\<close>

theorem reset_iff_values_differ_witness:
  "sameValues abc abcRelabelled \<and> abcRelabelled \<noteq> abc \<and>
   resetEffect abc abcRelabelled \<lparr>rotateIndex = - 1, selectedIndex = 2\<rparr>
     = \<lparr>rotateIndex = - 1, selectedIndex = 2\<rparr> \<and>
   \<not> sameValues abc [itemOf ''B'', itemOf ''A'', itemOf ''C''] \<and>
   resetEffect abc [itemOf ''B'', itemOf ''A'', itemOf ''C'']
       \<lparr>rotateIndex = - 1, selectedIndex = 2\<rparr>
     = \<lparr>rotateIndex = 0, selectedIndex = 0\<rparr> \<and>
   \<not> sameValues abcde abc \<and>
   resetEffect abcde abc \<lparr>rotateIndex = - 1, selectedIndex = 2\<rparr>
     = \<lparr>rotateIndex = 0, selectedIndex = 0\<rparr>"
proof -
  have s: "sameValues abc abcRelabelled" "abcRelabelled \<noteq> abc"
    "\<not> sameValues abc [itemOf ''B'', itemOf ''A'', itemOf ''C'']"
    "\<not> sameValues abcde abc"
    by (simp_all add: sameValues_def abc_def abcde_def abcRelabelled_def itemOf_def
        isDeepStrictEqual_def)
  show ?thesis
    using reset_iff_values_differ [of abc abcRelabelled "\<lparr>rotateIndex = - 1, selectedIndex = 2\<rparr>"]
      reset_iff_values_differ [of abc "[itemOf ''B'', itemOf ''A'', itemOf ''C'']"
        "\<lparr>rotateIndex = - 1, selectedIndex = 2\<rparr>"]
      reset_iff_values_differ [of abcde abc "\<lparr>rotateIndex = - 1, selectedIndex = 2\<rparr>"]
      s
    by simp
qed

text \<open>
  C10: the values are compared by deep equality, not by reference: an items array of new
  item objects whose values are deeply equal to the previous ones, position by position,
  keeps rotation and highlight.
\<close>

theorem deep_equal_values_keep_state:
  assumes "length its = length previous"
    and "\<forall>i<length previous. isDeepStrictEqual (val (previous ! i)) (val (its ! i))"
  shows "resetEffect previous its st = st"
  using assms
  by (simp add: resetEffect_def isDeepStrictEqual_arrays list_all2_conv_all_nth)

text \<open>
  The values of \<open>one\<close> and \<open>uno\<close> are two objects (\<open>===\<close> is false) with the same
  properties.
\<close>

theorem deep_equal_values_keep_state_witness:
  "length uno = length one \<and>
   \<not> strictEquals (val (one ! 0)) (val (uno ! 0)) \<and>
   val (one ! 0) \<noteq> val (uno ! 0) \<and>
   resetEffect one uno \<lparr>rotateIndex = - 2, selectedIndex = 1\<rparr>
     = \<lparr>rotateIndex = - 2, selectedIndex = 1\<rparr>"
proof -
  have l: "length uno = length one"
    by (simp add: one_def uno_def)
  have d: "\<forall>i<length one. isDeepStrictEqual (val (one ! i)) (val (uno ! i))"
    by (simp add: one_def uno_def isDeepStrictEqual_def sorted_two)
  have n: "\<not> strictEquals (val (one ! 0)) (val (uno ! 0))" "val (one ! 0) \<noteq> val (uno ! 0)"
    by (simp_all add: one_def uno_def)
  show ?thesis
    using deep_equal_values_keep_state [OF l d] l n by simp
qed

section \<open>Digit keys\<close>

text \<open>
  C9: a digit key \<open>n\<close> from 1 to 9, with a visible slice of \<open>m\<close> items, calls
  \<open>onSelect\<close> (when registered) with the item at slot \<open>n - 1\<close> of the visible slice if
  \<open>n - 1 < m\<close> and calls nothing otherwise; rotation and highlight are kept in both
  cases. The event of a digit key carries none of the flags the handler reads.
\<close>

theorem digit_key_selects_visible_slot:
  assumes "isDigit input"
    and "\<not> upArrow k" and "\<not> downArrow k" and "\<not> leftArrow k" and "\<not> rightArrow k"
    and "\<not> tab k" and "\<not> return k"
  shows "handler p st input k =
     (st,
      if onSelect p \<and> parseInt input - 1 < int (length (slicedItems p (rotateIndex st)))
      then [OnSelect (Some (slicedItems p (rotateIndex st) ! nat (parseInt input - 1)))]
      else [])"
proof -
  have np: "\<not> isPrevious p input k" and nn: "\<not> isNext p input k"
    using assms isDigit_props(1,2)[OF assms(1)] by (simp_all add: isPrevious_def isNext_def)
  have ge: "0 \<le> parseInt input - 1"
    using isDigit_props(3)[OF assms(1)] by simp
  have "handler p st input k = digitBranch p st input (st, [])"
    using np nn assms(7) by (simp add: handler_def previousBranch_def nextBranch_def returnBranch_def)
  also have "\<dots> = (st,
      if onSelect p \<and> parseInt input - 1 < int (length (slicedItems p (rotateIndex st)))
      then [OnSelect (Some (slicedItems p (rotateIndex st) ! nat (parseInt input - 1)))]
      else [])"
    using assms(1) ge by (simp add: digitBranch_def Let_def js_index_in_range)
  finally show ?thesis .
qed

text \<open>
  Five items with limit 3 at rotation -1 show B, C, D: key 3 selects D, key 4 selects
  nothing.
\<close>

theorem digit_key_selects_visible_slot_witness:
  "isDigit ''3'' \<and> isDigit ''4'' \<and>
   handler (selectProps abcde (Some 3)) \<lparr>rotateIndex = - 1, selectedIndex = 0\<rparr> ''3'' noKey
     = (\<lparr>rotateIndex = - 1, selectedIndex = 0\<rparr>, [OnSelect (Some (itemOf ''D''))]) \<and>
   handler (selectProps abcde (Some 3)) \<lparr>rotateIndex = - 1, selectedIndex = 0\<rparr> ''4'' noKey
     = (\<lparr>rotateIndex = - 1, selectedIndex = 0\<rparr>, [])"
  using digit_key_selects_visible_slot
          [of "''3''" noKey "selectProps abcde (Some 3)" "\<lparr>rotateIndex = - 1, selectedIndex = 0\<rparr>"]
        digit_key_selects_visible_slot
          [of "''4''" noKey "selectProps abcde (Some 3)" "\<lparr>rotateIndex = - 1, selectedIndex = 0\<rparr>"]
  by (simp add: isDigit_def parseInt_def noKey_def abcde_sliced selectProps_sel)

end
